theory Spec2Isabelle
  imports Complex_Main
begin

section \<open>Post-processing of ThermoCalc tables: the numerical core of read\_thermocalc.py\<close>

text \<open>
  The script reads a tab-separated table (one header line, then one row per temperature
  point), removes duplicate temperatures, finds solidus and liquidus, fits a linear spline
  per (element, phase) column and derives a freezing range and a Schaeffler estimate.

  Conventions of the model.
  \<^item> numpy's float64 values are modelled as reals: rounding, overflow and signed zeros are
    outside the model. A missing field (NaN in the array) is \<open>None\<close>.
  \<^item> Where the source divides a numpy float by zero, numpy returns inf or nan (with a
    warning) and the script goes on. Those values are not reals: the model ends there with
    the outcome \<open>NonFinite\<close>. Division of the Python integers \<open>0/0\<close> raises
    ZeroDivisionError in the source and in the model.
  \<^item> Every raise of the source is a value \<open>Inl e\<close>.
  \<^item> The matplotlib calls (steps 6 and the plotting lines of step 7) are left out.
\<close>

subsection \<open>Failures\<close>

datatype error = IndexError | KeyError | ValueError | ZeroDivisionError
  | NonFinite | SplineError

definition bnd :: "error + 'a \<Rightarrow> ('a \<Rightarrow> error + 'b) \<Rightarrow> error + 'b" where
  "bnd m f = (case m of Inl e \<Rightarrow> Inl e | Inr x \<Rightarrow> f x)"

text \<open>Division of numpy floats: finite when the divisor is not zero.\<close>

definition np_div :: "real \<Rightarrow> real \<Rightarrow> error + real" where
  "np_div x y = (if y = 0 then Inl NonFinite else Inr (x / y))"

text \<open>A Python dict, in insertion order; \<open>d[k]\<close> raises KeyError on a missing key.\<close>

type_synonym ('k, 'v) dict = "('k \<times> 'v) list"

definition getitem :: "('k, 'v) dict \<Rightarrow> 'k \<Rightarrow> error + 'v" where
  "getitem d k = (case map_of d k of None \<Rightarrow> Inl KeyError | Some v \<Rightarrow> Inr v)"

subsection \<open>Step 8: single-phase freezing range\<close>

text \<open>
  \<open>C\<close> and \<open>slopes\<close> map a phase to the dict of its elements. The four reads of one
  element, in the order of the source: \<open>slopes['LIQUID'][elem]\<close>, \<open>slopes[phase][elem]\<close>,
  \<open>C['LIQUID'][elem]\<close>, \<open>C[phase][elem]\<close>.
\<close>

type_synonym table2 = "(string, (string, real) dict) dict"

definition read_elem :: "table2 \<Rightarrow> table2 \<Rightarrow> string \<Rightarrow> string
    \<Rightarrow> error + (real \<times> real \<times> real \<times> real)" where
  "read_elem C slopes phase elem =
     bnd (getitem slopes ''LIQUID'') (\<lambda>sl. bnd (getitem sl elem) (\<lambda>mL.
     bnd (getitem slopes phase) (\<lambda>sp. bnd (getitem sp elem) (\<lambda>mS.
     bnd (getitem C ''LIQUID'') (\<lambda>cl. bnd (getitem cl elem) (\<lambda>CL.
     bnd (getitem C phase) (\<lambda>cp. bnd (getitem cp elem) (\<lambda>CS.
       Inr (mL, mS, CL, CS)))))))))"

text \<open>First loop over the elements: \<open>sumL += (CS - CL)/mL; sumS += (CS - CL)/mS\<close>.\<close>

fun sums_loop :: "table2 \<Rightarrow> table2 \<Rightarrow> string \<Rightarrow> string list \<Rightarrow> real \<times> real
    \<Rightarrow> error + (real \<times> real)" where
  "sums_loop C slopes phase [] acc = Inr acc"
| "sums_loop C slopes phase (elem # elems) (sumL, sumS) =
     bnd (read_elem C slopes phase elem) (\<lambda>(mL, mS, CL, CS).
     bnd (np_div (CS - CL) mL) (\<lambda>a.
     bnd (np_div (CS - CL) mS) (\<lambda>b.
       sums_loop C slopes phase elems (sumL + a, sumS + b))))"

text \<open>
  Second loop: \<open>dT1 = (CS - CL)**2/sumS\<close>, \<open>dT2 = CL*(CS - CL)*(1/sumL - 1/sumS)\<close>,
  accumulated into \<open>DeltaT1\<close> and \<open>DeltaT2\<close>.
\<close>

fun delta_loop :: "table2 \<Rightarrow> table2 \<Rightarrow> string \<Rightarrow> real \<Rightarrow> real \<Rightarrow> string list
    \<Rightarrow> real \<times> real \<Rightarrow> error + (real \<times> real)" where
  "delta_loop C slopes phase sumL sumS [] acc = Inr acc"
| "delta_loop C slopes phase sumL sumS (elem # elems) (DeltaT1, DeltaT2) =
     bnd (read_elem C slopes phase elem) (\<lambda>(mL, mS, CL, CS).
     bnd (np_div ((CS - CL)\<^sup>2) sumS) (\<lambda>dT1.
     bnd (np_div 1 sumL) (\<lambda>rL.
     bnd (np_div 1 sumS) (\<lambda>rS.
       delta_loop C slopes phase sumL sumS elems
         (DeltaT1 + dT1, DeltaT2 + CL * (CS - CL) * (rL - rS))))))"

text \<open>
  The body of the loop over the phases for one non-liquid phase. The result is what the
  final print shows: \<open>K = sumL/sumS\<close>, \<open>DeltaT1\<close>, \<open>DeltaT2\<close>. With no element both sums
  are still the Python integer 0, and \<open>sumL/sumS\<close> raises ZeroDivisionError.
\<close>

definition freezing_range :: "table2 \<Rightarrow> table2 \<Rightarrow> string list \<Rightarrow> string
    \<Rightarrow> error + (real \<times> real \<times> real)" where
  "freezing_range C slopes elements phase =
     bnd (sums_loop C slopes phase elements (0, 0)) (\<lambda>(sumL, sumS).
     bnd (delta_loop C slopes phase sumL sumS elements (0, 0)) (\<lambda>(DeltaT1, DeltaT2).
     if elements = [] then Inl ZeroDivisionError
     else bnd (np_div sumL sumS) (\<lambda>K. Inr (K, DeltaT1, DeltaT2))))"

subsection \<open>Step 9: Schaeffler estimate\<close>

definition Ni_coeffs :: "(string, real) dict" where
  "Ni_coeffs = [(''Ni'', 1), (''Mn'', 0.5), (''C'', 30), (''N'', 30)]"

definition Cr_coeffs :: "(string, real) dict" where
  "Cr_coeffs = [(''Cr'', 1), (''Mo'', 1.5), (''Si'', 1.5), (''Nb'', 0.5)]"

text \<open>The loop over \<open>C['LIQUID'].items()\<close>; the accumulator is \<open>(Ni_eq, Cr_eq)\<close>.\<close>

fun eq_loop :: "(string, real) dict \<Rightarrow> real \<times> real \<Rightarrow> real \<times> real" where
  "eq_loop [] acc = acc"
| "eq_loop ((elem, c) # items) (Ni_eq, Cr_eq) =
     eq_loop items
       (case map_of Ni_coeffs elem of Some k \<Rightarrow> Ni_eq + c * k | None \<Rightarrow> Ni_eq,
        case map_of Cr_coeffs elem of Some k \<Rightarrow> Cr_eq + c * k | None \<Rightarrow> Cr_eq)"

definition Ni_eq :: "(string, real) dict \<Rightarrow> real" where
  "Ni_eq liquid = fst (eq_loop liquid (0, 0))"

definition Cr_eq :: "(string, real) dict \<Rightarrow> real" where
  "Cr_eq liquid = snd (eq_loop liquid (0, 0))"

text \<open>\<open>bcc_dist = lambda x, y: (14 + b/a*(x - 19) - y)*a/np.sqrt(a**2 + b**2)\<close> with a, b = 7, 10.\<close>

definition bcc_dist :: "real \<Rightarrow> real \<Rightarrow> real" where
  "bcc_dist x y = (14 + 10 / 7 * (x - 19) - y) * 7 / sqrt (7\<^sup>2 + 10\<^sup>2)"

definition ten_pct_dist :: real where
  "ten_pct_dist = bcc_dist 21 12"

text \<open>
  \<open>bcc_wt = 10/ten_pct_dist*bcc_dist(Cr_eq*100, Ni_eq*100)\<close>; the step runs only for the
  base \<open>Fe\<close>. The result is the printed triple \<open>(Ni_eq, Cr_eq, bcc_wt)\<close>.
\<close>

definition schaeffler :: "string \<Rightarrow> (string, real) dict \<Rightarrow> (real \<times> real \<times> real) option" where
  "schaeffler base liquid =
     (if base = ''Fe''
      then Some (Ni_eq liquid, Cr_eq liquid,
                 10 / ten_pct_dist * bcc_dist (Cr_eq liquid * 100) (Ni_eq liquid * 100))
      else None)"

subsection \<open>The table\<close>

text \<open>
  The array \<open>data\<close> returned by \<open>np.genfromtxt\<close>: one row per line of the file, column 0
  the temperature. A cell is \<open>None\<close> where the array holds NaN. The temperature is taken
  to be present on every row (a real, not a cell), so \<open>T = data[:,0]\<close> is \<open>map temp data\<close>;
  the script keeps \<open>T\<close> as a view of column 0, and the model reads it from the rows
  likewise. The model starts from the two-dimensional array (genfromtxt gives a
  one-dimensional one for a file with a single data row, which the script cannot index).
\<close>

type_synonym cell = "real option"

record row =
  temp :: real
  cells :: "cell list"

definition row_fields :: "row \<Rightarrow> cell list" where
  "row_fields r = Some (temp r) # cells r"

text \<open>\<open>data[:,i]\<close>; numpy raises IndexError for a column the array does not have.\<close>

definition column :: "nat \<Rightarrow> row list \<Rightarrow> error + cell list" where
  "column i data =
     (if \<forall>r\<in>set data. i < length (row_fields r)
      then Inr (map (\<lambda>r. row_fields r ! i) data) else Inl IndexError)"

subsection \<open>Step 1: duplicate temperatures\<close>

text \<open>
  \<open>np.unique(T, return_index=True, return_inverse=True, return_counts=True)\<close>: the sorted
  distinct values, for each the index of its first occurrence in \<open>T\<close>, and the number of
  its occurrences (the inverse is not used by the script).
\<close>

definition first_index :: "real list \<Rightarrow> real \<Rightarrow> nat" where
  "first_index T v = length (takeWhile (\<lambda>x. x \<noteq> v) T)"

definition np_unique :: "real list \<Rightarrow> real list \<times> nat list \<times> nat list" where
  "np_unique T =
     (let u = sort (remdups T) in (u, map (first_index T) u, map (count_list T) u))"

text \<open>\<open>np.count_nonzero(~np.isnan(row))\<close> for one row of the array.\<close>

definition count_present :: "row \<Rightarrow> nat" where
  "count_present r = length (filter (\<lambda>c. c \<noteq> None) (row_fields r))"

text \<open>\<open>np.argmax\<close>: the first index of the greatest value.\<close>

definition argmax :: "nat list \<Rightarrow> nat" where
  "argmax xs = length (takeWhile (\<lambda>x. x < foldr max xs 0) xs)"

text \<open>
  The loop over \<open>np.where(cnt > 1)[0]\<close> changes \<open>ind[i]\<close> only, reading the slice
  \<open>data[ind[i]:ind[i]+cnt[i],:]\<close> (a slice is cut at the end of the array).
\<close>

definition pick :: "row list \<Rightarrow> nat \<Rightarrow> nat \<Rightarrow> nat" where
  "pick data k c =
     (if c > 1 then k + argmax (map count_present (take c (drop k data))) else k)"

text \<open>\<open>data = data[ind]\<close>: the rows at the chosen indices, in the order of \<open>ind\<close>.\<close>

definition dedup_ind :: "row list \<Rightarrow> nat list" where
  "dedup_ind data =
     (case np_unique (map temp data) of (u, ind, cnt) \<Rightarrow> map2 (pick data) ind cnt)"

definition dedup :: "row list \<Rightarrow> row list" where
  "dedup data = map (\<lambda>k. data ! k) (dedup_ind data)"

subsection \<open>The header patterns\<close>

text \<open>
  The four regular expressions of class \<open>Regex\<close>, written out as matchers on the header
  string. Characters are bytes; \<open>\w\<close> is taken on ASCII (letters, digits, underscore).
\<close>

definition strip_prefix :: "string \<Rightarrow> string \<Rightarrow> string option" where
  "strip_prefix p s = (if take (length p) s = p then Some (drop (length p) s) else None)"

definition word_char :: "char \<Rightarrow> bool" where
  "word_char c =
     (let n = (of_char c :: nat)
      in (48 \<le> n \<and> n \<le> 57) \<or> (65 \<le> n \<and> n \<le> 90) \<or> (97 \<le> n \<and> n \<le> 122) \<or> n = 95)"

definition phase_char :: "char \<Rightarrow> bool" where
  "phase_char c = (word_char c \<or> c = CHR ''#'')"

text \<open>The leftmost position at which a matcher succeeds (\<open>re\<close> scans from the left).\<close>

fun search :: "(string \<Rightarrow> 'a option) \<Rightarrow> string \<Rightarrow> 'a option" where
  "search m [] = m []"
| "search m (c # cs) = (case m (c # cs) of Some r \<Rightarrow> Some r | None \<Rightarrow> search m cs)"

text \<open>
  \<open>Temperature \[(.*)\]\<close>: after the literal, the greedy \<open>.*\<close> runs to the last \<open>]\<close> before
  a line break. \<open>findall\<close> returns the group of every match, scanning on after each.
\<close>

definition last_bracket :: "string \<Rightarrow> nat option" where
  "last_bracket s =
     (case filter (\<lambda>k. s ! k = CHR '']'') (rev [0..<length s]) of [] \<Rightarrow> None | k # _ \<Rightarrow> Some k)"

function temperature_findall :: "string \<Rightarrow> string list" where
  "temperature_findall [] = []"
| "temperature_findall (c # cs) =
     (case strip_prefix ''Temperature ['' (c # cs) of
        None \<Rightarrow> temperature_findall cs
      | Some r \<Rightarrow>
          (case last_bracket (takeWhile (\<lambda>x. x \<noteq> CHR 0x0A) r) of
             None \<Rightarrow> temperature_findall cs
           | Some k \<Rightarrow> take k r # temperature_findall (drop (Suc k) r)))"
  by pat_completeness auto
termination
  by (relation "measure length") (auto simp: strip_prefix_def split: if_splits)

text \<open>
  \<open>Amount of ([\w#]+) \[mol\]\<close> at one position: the literal, the longest run of phase
  characters (not empty), the literal \<open> [mol]\<close>.
\<close>

definition phase_mol_at :: "string \<Rightarrow> string option" where
  "phase_mol_at s =
     (case strip_prefix ''Amount of '' s of
        None \<Rightarrow> None
      | Some r \<Rightarrow>
          (let p = takeWhile phase_char r
           in if p \<noteq> [] \<and> strip_prefix '' [mol]'' (dropWhile phase_char r) \<noteq> None
              then Some p else None))"

text \<open>\<open>(\w+) in ([\w#]+)\<close>: an element, the literal \<open> in \<close>, a phase; the rest is returned.\<close>

definition elem_in_phase :: "string \<Rightarrow> (string \<times> string \<times> string) option" where
  "elem_in_phase r =
     (let e = takeWhile word_char r
      in case strip_prefix '' in '' (dropWhile word_char r) of
           None \<Rightarrow> None
         | Some r' \<Rightarrow>
             (let p = takeWhile phase_char r'
              in if e \<noteq> [] \<and> p \<noteq> [] then Some (e, p, dropWhile phase_char r') else None))"

text \<open>\<open>Mass percent of (\w+) in ([\w#]+)\<close> at one position.\<close>

definition masspct_at :: "string \<Rightarrow> (string \<times> string) option" where
  "masspct_at s =
     (case strip_prefix ''Mass percent of '' s of
        None \<Rightarrow> None
      | Some r \<Rightarrow> (case elem_in_phase r of None \<Rightarrow> None | Some (e, p, _) \<Rightarrow> Some (e, p)))"

text \<open>\<open>Amount of (\w+) in ([\w#]+) \[g\]\<close> at one position.\<close>

definition gram_at :: "string \<Rightarrow> (string \<times> string) option" where
  "gram_at s =
     (case strip_prefix ''Amount of '' s of
        None \<Rightarrow> None
      | Some r \<Rightarrow>
          (case elem_in_phase r of
             None \<Rightarrow> None
           | Some (e, p, r') \<Rightarrow> if strip_prefix '' [g]'' r' \<noteq> None then Some (e, p) else None))"

text \<open>\<open>parse_element_content\<close>: the first match of \<open>masspct\<close>, else the first of \<open>gram\<close>.\<close>

definition parse_element_content :: "string \<Rightarrow> (string \<times> string) option" where
  "parse_element_content c =
     (case search masspct_at c of Some res \<Rightarrow> Some res | None \<Rightarrow> search gram_at c)"

text \<open>\<open>parse_phase_fraction\<close>: the first match of \<open>phase_mol\<close>.\<close>

definition parse_phase_fraction :: "string \<Rightarrow> string option" where
  "parse_phase_fraction c = search phase_mol_at c"

subsection \<open>Console output and the run\<close>

text \<open>
  The lines the script prints, in order, are the log of a run. A step returns its log
  with its result, and a failure keeps the log printed before it. The per-element lines of
  the verbose mode are not part of the log.
\<close>

datatype line =
    Solidus_line real real real
  | Window_line real real real
  | Elements_line "string list"
  | Phases_line "string list"
  | Fit_line string string real real
  | Freezing_line string real real real
  | Schaeffler_line real real real

type_synonym 'a res = "line list \<times> (error + 'a)"

definition ret :: "'a \<Rightarrow> 'a res" where
  "ret x = ([], Inr x)"

definition lift :: "error + 'a \<Rightarrow> 'a res" where
  "lift m = ([], m)"

definition say :: "line \<Rightarrow> unit res" where
  "say l = ([l], Inr ())"

definition bndw :: "'a res \<Rightarrow> ('a \<Rightarrow> 'b res) \<Rightarrow> 'b res" where
  "bndw m f =
     (case m of
        (o1, Inl e) \<Rightarrow> (o1, Inl e)
      | (o1, Inr x) \<Rightarrow> (case f x of (o2, r) \<Rightarrow> (o1 @ o2, r)))"

text \<open>
  The command-line arguments the core reads: \<open>args.T\<close> (a Range \<open>(min, max)\<close>),
  \<open>args.T0\<close> (None when the option is absent), \<open>args.base\<close>, \<open>args.tail\<close>, \<open>args.phases\<close>,
  \<open>args.manual\<close> and \<open>args.skip_phases\<close>. Step 2 assigns to \<open>args.T\<close> and \<open>args.T0\<close>.
\<close>

record args =
  args_T :: "real \<times> real"
  args_T0 :: "real option"
  args_base :: string
  args_tail :: real
  args_phases :: bool
  args_manual :: bool
  args_skip_phases :: "string list"

text \<open>The defaults of the argument parser.\<close>

definition default_args :: args where
  "default_args = \<lparr>args_T = (1600, 1800), args_T0 = None, args_base = ''Fe'',
     args_tail = 0.5, args_phases = False, args_manual = False, args_skip_phases = []\<rparr>"

text \<open>\<open>not args.T0\<close> holds for None and for the float zero.\<close>

definition not_T0 :: "real option \<Rightarrow> bool" where
  "not_T0 t = (t = None \<or> t = Some 0)"

subsection \<open>Step 2: phase fractions, solidus and liquidus\<close>

text \<open>\<open>T += 273.15\<close>, on the view of column 0.\<close>

definition shift_celsius :: "row list \<Rightarrow> row list" where
  "shift_celsius data = map (\<lambda>r. r\<lparr>temp := temp r + 273.15\<rparr>) data"

text \<open>\<open>np.argwhere\<close> on a one-dimensional array: the indices where the condition holds.\<close>

definition argwhere :: "('a \<Rightarrow> bool) \<Rightarrow> 'a list \<Rightarrow> nat list" where
  "argwhere P xs = filter (\<lambda>k. P (xs ! k)) [0..<length xs]"

text \<open>
  \<open>sol = T[np.argwhere(np.isnan(data[:,i]) == True)[-1][0]]\<close> and
  \<open>liq = T[np.argwhere(data[:,i] == 1)[0][0]]\<close>; indexing an empty result raises
  IndexError.
\<close>

definition solidus :: "real list \<Rightarrow> cell list \<Rightarrow> error + real" where
  "solidus T col =
     (case argwhere (\<lambda>c. c = None) col of [] \<Rightarrow> Inl IndexError | ks \<Rightarrow> Inr (T ! last ks))"

definition liquidus :: "real list \<Rightarrow> cell list \<Rightarrow> error + real" where
  "liquidus T col =
     (case argwhere (\<lambda>c. c = Some 1) col of [] \<Rightarrow> Inl IndexError | k # _ \<Rightarrow> Inr (T ! k))"

record state =
  st_data :: "row list"
  st_args :: args
  plot_phases :: bool

text \<open>The branch \<open>if phase == 'LIQUID'\<close> of the loop, for column \<open>i\<close>.\<close>

definition liquid_column :: "nat \<Rightarrow> state \<Rightarrow> state res" where
  "liquid_column i s =
     bndw (lift (column i (st_data s))) (\<lambda>col.
     bndw (lift (solidus (map temp (st_data s)) col)) (\<lambda>sol.
     bndw (lift (liquidus (map temp (st_data s)) col)) (\<lambda>liq.
     bndw (say (Solidus_line sol liq (liq - sol))) (\<lambda>_.
     let deltaT = liq - sol; a = st_args s in
     ret (if \<not> args_manual a
          then s\<lparr>st_args := a\<lparr>
                 args_T := (sol - deltaT * args_tail a, liq + deltaT * args_tail a),
                 args_T0 := (if not_T0 (args_T0 a) then Some (liq - deltaT / 10 ^ 10)
                             else args_T0 a)\<rparr>\<rparr>
          else s)))))"

text \<open>
  One turn of \<open>for i, c in enumerate(columns)\<close>. \<open>tunit\<close> is the list returned by
  \<open>findall\<close>, and \<open>'C' in tunit\<close> asks whether the string \<open>C\<close> is one of its members.
\<close>

definition analyze_column :: "nat \<Rightarrow> string \<Rightarrow> state \<Rightarrow> state res" where
  "analyze_column i c s =
     (let s1 = (if ''C'' \<in> set (temperature_findall c)
                then s\<lparr>st_data := shift_celsius (st_data s)\<rparr> else s)
      in case parse_phase_fraction c of
           None \<Rightarrow> ret s1
         | Some phase \<Rightarrow>
             (let s2 = (if args_phases (st_args s1) then s1\<lparr>plot_phases := True\<rparr> else s1)
              in if phase = ''LIQUID'' then liquid_column i s2 else ret s2))"

fun analyze :: "nat \<Rightarrow> string list \<Rightarrow> state \<Rightarrow> state res" where
  "analyze i [] s = ret s"
| "analyze i (c # cs) s = bndw (analyze_column i c s) (analyze (Suc i) cs)"

text \<open>After the loop: \<open>if not args.T0: args.T0 = (args.T.min + args.T.max)/2\<close>.\<close>

definition final_T0 :: "args \<Rightarrow> real" where
  "final_T0 a =
     (case args_T0 a of
        None \<Rightarrow> (fst (args_T a) + snd (args_T a)) / 2
      | Some t \<Rightarrow> if t = 0 then (fst (args_T a) + snd (args_T a)) / 2 else t)"

subsection \<open>Step 3: the temperature window\<close>

definition window_filter :: "real \<times> real \<Rightarrow> row list \<Rightarrow> row list" where
  "window_filter w data = filter (\<lambda>r. fst w < temp r \<and> temp r < snd w) data"

subsection \<open>Step 4: elements and phases\<close>

definition count_nonnan :: "cell list \<Rightarrow> nat" where
  "count_nonnan col = length (filter (\<lambda>c. c \<noteq> None) col)"

fun scan_columns :: "args \<Rightarrow> row list \<Rightarrow> nat \<Rightarrow> string list \<Rightarrow> string list \<times> string list
    \<Rightarrow> error + (string list \<times> string list)" where
  "scan_columns a data i [] acc = Inr acc"
| "scan_columns a data i (c # cs) (elements, phases) =
     (case parse_element_content c of
        None \<Rightarrow> scan_columns a data (Suc i) cs (elements, phases)
      | Some (elem, phase) \<Rightarrow>
          (let elements' = (if elem \<notin> set elements then elements @ [elem] else elements)
           in if phase \<notin> set phases \<and> phase \<notin> set (args_skip_phases a)
              then bnd (column i data) (\<lambda>col.
                     scan_columns a data (Suc i) cs
                       (elements', if count_nonnan col \<noteq> 0 then phases @ [phase] else phases))
              else scan_columns a data (Suc i) cs (elements', phases)))"

text \<open>\<open>elements.remove(args.base)\<close> raises ValueError when the base is not in the list.\<close>

definition remove_base :: "string \<Rightarrow> string list \<Rightarrow> error + string list" where
  "remove_base b elements = (if b \<in> set elements then Inr (remove1 b elements) else Inl ValueError)"

definition elements_phases :: "args \<Rightarrow> string list \<Rightarrow> row list
    \<Rightarrow> error + (string list \<times> string list)" where
  "elements_phases a columns data =
     bnd (scan_columns a data 0 columns ([], [])) (\<lambda>(elements, phases).
     bnd (remove_base (args_base a) elements) (\<lambda>elements'. Inr (elements', phases)))"

subsection \<open>Step 5: normalization sums\<close>

text \<open>Addition of array cells: NaN absorbs.\<close>

definition cell_add :: "cell \<Rightarrow> cell \<Rightarrow> cell" where
  "cell_add a b = (case (a, b) of (Some x, Some y) \<Rightarrow> Some (x + y) | _ \<Rightarrow> None)"

text \<open>\<open>d[k] = v\<close> on a dict: an existing key keeps its place, a new one goes last.\<close>

fun setitem :: "('k, 'v) dict \<Rightarrow> 'k \<Rightarrow> 'v \<Rightarrow> ('k, 'v) dict" where
  "setitem [] k v = [(k, v)]"
| "setitem ((k', v') # d) k v = (if k' = k then (k, v) # d else (k', v') # setitem d k v)"

text \<open>\<open>sums = { phase: np.zeros_like(T) for phase in phases }\<close>.\<close>

definition zero_sums :: "string list \<Rightarrow> row list \<Rightarrow> (string, cell list) dict" where
  "zero_sums phases data = map (\<lambda>phase. (phase, replicate (length data) (Some 0))) phases"

text \<open>The loop \<open>sums[phase] += data[:,i]\<close> over the element columns of the active phases.\<close>

fun phase_sums :: "row list \<Rightarrow> string list \<Rightarrow> nat \<Rightarrow> string list \<Rightarrow> (string, cell list) dict
    \<Rightarrow> error + (string, cell list) dict" where
  "phase_sums data phases i [] psums = Inr psums"
| "phase_sums data phases i (c # cs) psums =
     (case parse_element_content c of
        None \<Rightarrow> phase_sums data phases (Suc i) cs psums
      | Some (elem, phase) \<Rightarrow>
          if phase \<in> set phases
          then bnd (getitem psums phase) (\<lambda>v.
               bnd (column i data) (\<lambda>col.
                 phase_sums data phases (Suc i) cs (setitem psums phase (map2 cell_add v col))))
          else phase_sums data phases (Suc i) cs psums)"

subsection \<open>Step 7: the fit of one (element, phase) column\<close>

text \<open>\<open>sums[phase] > 0\<close>: false on NaN.\<close>

definition positive :: "cell \<Rightarrow> bool" where
  "positive c = (case c of Some v \<Rightarrow> v > 0 | None \<Rightarrow> False)"

text \<open>Boolean-mask indexing \<open>xs[mask]\<close>.\<close>

definition select :: "bool list \<Rightarrow> 'a list \<Rightarrow> 'a list" where
  "select m xs = map snd (filter fst (zip m xs))"

text \<open>
  \<open>Y[mask]/sums[phase][mask]\<close>, cell by cell; the divisor is positive wherever the mask
  holds.
\<close>

definition cell_div :: "cell \<Rightarrow> cell \<Rightarrow> cell" where
  "cell_div a b =
     (case (a, b) of (Some x, Some y) \<Rightarrow> if y = 0 then None else Some (x / y) | _ \<Rightarrow> None)"

text \<open>
  scipy's \<open>UnivariateSpline(X, Y, k=1, s=0)\<close> is a parameter of the model: given the
  points and \<open>T0\<close> it returns \<open>(spl(T0), spl.derivative()(T0))\<close>, or fails where scipy
  raises.
\<close>

type_synonym spline = "real list \<Rightarrow> cell list \<Rightarrow> real \<Rightarrow> error + (real \<times> real)"

text \<open>
  The body under \<open>mask = sums[phase] > 0\<close>: the pair \<open>(C(T0), slope)\<close> with
  \<open>slope = 1/spl.derivative()(T0)\<close> when \<open>np.count_nonzero(mask) > 0\<close>, no entry otherwise.
\<close>

definition fit_pair :: "spline \<Rightarrow> real \<Rightarrow> real list \<Rightarrow> cell list \<Rightarrow> cell list
    \<Rightarrow> error + (real \<times> real) option" where
  "fit_pair spl T0 T Y s =
     (let m = map positive s
      in if length (filter (\<lambda>b. b) m) > 0
         then bnd (spl (select m T) (map2 cell_div (select m Y) (select m s)) T0)
                (\<lambda>(c, d). bnd (np_div 1 d) (\<lambda>slope. Inr (Some (c, slope))))
         else Inr None)"

text \<open>\<open>d[phase][elem] = v\<close>.\<close>

definition setitem2 :: "table2 \<Rightarrow> string \<Rightarrow> string \<Rightarrow> real \<Rightarrow> error + table2" where
  "setitem2 d phase elem v =
     bnd (getitem d phase) (\<lambda>inner. Inr (setitem d phase (setitem inner elem v)))"

text \<open>The loop of step 7 over the columns; the accumulator is \<open>(C, slopes)\<close>.\<close>

fun fit :: "spline \<Rightarrow> string \<Rightarrow> real \<Rightarrow> row list \<Rightarrow> string list \<Rightarrow> (string, cell list) dict
    \<Rightarrow> nat \<Rightarrow> string list \<Rightarrow> table2 \<times> table2 \<Rightarrow> (table2 \<times> table2) res" where
  "fit spl b T0 data phases psums i [] acc = ret acc"
| "fit spl b T0 data phases psums i (c # cs) (C, slopes) =
     (case parse_element_content c of
        None \<Rightarrow> fit spl b T0 data phases psums (Suc i) cs (C, slopes)
      | Some (elem, phase) \<Rightarrow>
          if elem = b \<or> phase \<notin> set phases
          then fit spl b T0 data phases psums (Suc i) cs (C, slopes)
          else
            bndw (lift (bnd (column i data) (\<lambda>Y. bnd (getitem psums phase) (\<lambda>s.
                          fit_pair spl T0 (map temp data) Y s)))) (\<lambda>r.
            case r of
              None \<Rightarrow> fit spl b T0 data phases psums (Suc i) cs (C, slopes)
            | Some (c0, slope) \<Rightarrow>
                bndw (lift (setitem2 slopes phase elem slope)) (\<lambda>slopes'.
                bndw (lift (setitem2 C phase elem c0)) (\<lambda>C'.
                bndw (say (Fit_line elem phase c0 slope)) (\<lambda>_.
                  fit spl b T0 data phases psums (Suc i) cs (C', slopes'))))))"

subsection \<open>The loop of step 8 and the whole run\<close>

fun freeze :: "table2 \<Rightarrow> table2 \<Rightarrow> string list \<Rightarrow> string list \<Rightarrow> unit res" where
  "freeze C slopes elements [] = ret ()"
| "freeze C slopes elements (phase # phases) =
     (if phase = ''LIQUID'' then freeze C slopes elements phases
      else bndw (lift (freezing_range C slopes elements phase)) (\<lambda>(K, DeltaT1, DeltaT2).
           bndw (say (Freezing_line phase K DeltaT1 DeltaT2)) (\<lambda>_.
             freeze C slopes elements phases)))"

text \<open>
  The script from step 1 to step 9, on the array read from the file and the header
  \<open>columns\<close>. \<open>C['LIQUID']\<close> is read for the figure title between steps 7 and 8.
\<close>

definition run :: "spline \<Rightarrow> args \<Rightarrow> string list \<Rightarrow> row list \<Rightarrow> unit res" where
  "run spl a0 columns data0 =
     bndw (analyze 0 columns \<lparr>st_data = dedup data0, st_args = a0, plot_phases = False\<rparr>) (\<lambda>s.
     let a = st_args s; T0 = final_T0 a in
     bndw (say (Window_line (fst (args_T a)) T0 (snd (args_T a)))) (\<lambda>_.
     let data = window_filter (args_T a) (st_data s) in
     bndw (lift (elements_phases a columns data)) (\<lambda>(elements, phases).
     bndw (say (Elements_line elements)) (\<lambda>_.
     bndw (say (Phases_line phases)) (\<lambda>_.
     bndw (lift (phase_sums data phases 0 columns (zero_sums phases data))) (\<lambda>psums.
     bndw (fit spl (args_base a) T0 data phases psums 0 columns
             (map (\<lambda>p. (p, [])) phases, map (\<lambda>p. (p, [])) phases)) (\<lambda>(C, slopes).
     bndw (lift (getitem C ''LIQUID'')) (\<lambda>liquid.
     bndw (freeze C slopes elements phases) (\<lambda>_.
     case schaeffler (args_base a) liquid of
       None \<Rightarrow> ret ()
     | Some (n, c, w) \<Rightarrow> say (Schaeffler_line n c w))))))))))"

section \<open>Properties\<close>

lemma bnd_Inr [simp]: "bnd (Inr x) f = f x"
  by (simp add: bnd_def)

lemma bnd_Inl [simp]: "bnd (Inl e) f = Inl e"
  by (simp add: bnd_def)

lemma ten_pct_dist_value: "ten_pct_dist = 34 / sqrt 149"
  by (simp add: ten_pct_dist_def bcc_dist_def)

lemma ten_pct_dist_nonzero: "ten_pct_dist \<noteq> 0"
  by (simp add: ten_pct_dist_value)

subsection \<open>Step 8: the freezing-range sums\<close>

lemma sums_loop_eq:
  assumes "\<forall>e\<in>set elements. read_elem C slopes phase e = Inr (mL e, mS e, CL e, CS e)
             \<and> mL e \<noteq> 0 \<and> mS e \<noteq> 0"
  shows "sums_loop C slopes phase elements (sumL, sumS) =
           Inr (sumL + (\<Sum>e\<leftarrow>elements. (CS e - CL e) / mL e),
                sumS + (\<Sum>e\<leftarrow>elements. (CS e - CL e) / mS e))"
  using assms
  by (induction elements arbitrary: sumL sumS) (simp_all add: np_div_def add.assoc)

lemma delta_loop_eq:
  assumes "\<forall>e\<in>set elements. read_elem C slopes phase e = Inr (mL e, mS e, CL e, CS e)"
    and "sumL \<noteq> 0" and "sumS \<noteq> 0"
  shows "delta_loop C slopes phase sumL sumS elements (D1, D2) =
           Inr (D1 + (\<Sum>e\<leftarrow>elements. (CS e - CL e)\<^sup>2 / sumS),
                D2 + (\<Sum>e\<leftarrow>elements. CL e * (CS e - CL e) * (1 / sumL - 1 / sumS)))"
  using assms
  by (induction elements arbitrary: D1 D2) (simp_all add: np_div_def add.assoc)

text \<open>
  Claim C1. For a non-liquid phase, let every element of the list have its four entries
  (slopes \<open>mL\<close>, \<open>mS\<close> and concentrations \<open>CL\<close>, \<open>CS\<close> of LIQUID and of the phase), the
  slopes and both sums being non-zero. Then the step yields \<open>K = sumL/sumS\<close> with
  \<open>sumL = \<Sum> (CS - CL)/mL\<close> and \<open>sumS = \<Sum> (CS - CL)/mS\<close>,
  \<open>DeltaT1 = \<Sum> (CS - CL)\<^sup>2/sumS\<close> and \<open>DeltaT2 = \<Sum> CL (CS - CL) (1/sumL - 1/sumS)\<close>.
  For the single element with \<open>CL = 0.02\<close>, \<open>CS = 0.05\<close>, \<open>mL = 10\<close>, \<open>mS = -5\<close> the result
  is \<open>K = -0.5\<close>, \<open>DeltaT1 = -0.15\<close>, \<open>DeltaT2 = 0.3\<close>.
\<close>

theorem freezing_range_formulas:
  assumes entries: "\<forall>e\<in>set elements.
        read_elem C slopes phase e = Inr (mL e, mS e, CL e, CS e) \<and> mL e \<noteq> 0 \<and> mS e \<noteq> 0"
    and nonempty: "elements \<noteq> []"
    and sumL: "sumL = (\<Sum>e\<leftarrow>elements. (CS e - CL e) / mL e)"
    and sumS: "sumS = (\<Sum>e\<leftarrow>elements. (CS e - CL e) / mS e)"
    and nz: "sumL \<noteq> 0" "sumS \<noteq> 0"
  shows "freezing_range C slopes elements phase =
           Inr (sumL / sumS,
                (\<Sum>e\<leftarrow>elements. (CS e - CL e)\<^sup>2 / sumS),
                (\<Sum>e\<leftarrow>elements. CL e * (CS e - CL e) * (1 / sumL - 1 / sumS)))
         \<and> freezing_range
             [(''LIQUID'', [(''X'', 0.02)]), (''S'', [(''X'', 0.05)])]
             [(''LIQUID'', [(''X'', 10)]), (''S'', [(''X'', -5)])] [''X''] ''S''
           = Inr (-0.5, -0.15, 0.3)"
proof
  have s: "sums_loop C slopes phase elements (0, 0) = Inr (sumL, sumS)"
    using sums_loop_eq [OF entries, of 0 0] by (simp add: sumL sumS)
  have d: "delta_loop C slopes phase sumL sumS elements (0, 0) =
             Inr ((\<Sum>e\<leftarrow>elements. (CS e - CL e)\<^sup>2 / sumS),
                  (\<Sum>e\<leftarrow>elements. CL e * (CS e - CL e) * (1 / sumL - 1 / sumS)))"
    using delta_loop_eq [of elements C slopes phase mL mS CL CS sumL sumS 0 0] entries nz
    by simp
  show "freezing_range C slopes elements phase =
           Inr (sumL / sumS,
                (\<Sum>e\<leftarrow>elements. (CS e - CL e)\<^sup>2 / sumS),
                (\<Sum>e\<leftarrow>elements. CL e * (CS e - CL e) * (1 / sumL - 1 / sumS)))"
    using nonempty nz by (simp add: freezing_range_def s d np_div_def)
next
  show "freezing_range
             [(''LIQUID'', [(''X'', 0.02)]), (''S'', [(''X'', 0.05)])]
             [(''LIQUID'', [(''X'', 10)]), (''S'', [(''X'', -5)])] [''X''] ''S''
           = Inr (-0.5, -0.15, 0.3)"
    by (simp add: freezing_range_def read_elem_def getitem_def np_div_def power2_eq_square)
qed

theorem freezing_range_formulas_witness:
  "read_elem [(''LIQUID'', [(''Cr'', 0.2), (''Ni'', 0.05)]), (''FCC'', [(''Cr'', 0.1), (''Ni'', 0.25)])]
             [(''LIQUID'', [(''Cr'', 5), (''Ni'', 5)]), (''FCC'', [(''Cr'', -2), (''Ni'', 4)])]
             ''FCC'' ''Cr'' = Inr (5, -2, 0.2, 0.1)
   \<and> read_elem [(''LIQUID'', [(''Cr'', 0.2), (''Ni'', 0.05)]), (''FCC'', [(''Cr'', 0.1), (''Ni'', 0.25)])]
             [(''LIQUID'', [(''Cr'', 5), (''Ni'', 5)]), (''FCC'', [(''Cr'', -2), (''Ni'', 4)])]
             ''FCC'' ''Ni'' = Inr (5, 4, 0.05, 0.25)
   \<and> freezing_range
             [(''LIQUID'', [(''Cr'', 0.2), (''Ni'', 0.05)]), (''FCC'', [(''Cr'', 0.1), (''Ni'', 0.25)])]
             [(''LIQUID'', [(''Cr'', 5), (''Ni'', 5)]), (''FCC'', [(''Cr'', -2), (''Ni'', 4)])]
             [''Cr'', ''Ni''] ''FCC''
         = Inr (0.2, 0.5, -0.4)"
  using freezing_range_formulas [of "[''Cr'', ''Ni'']"
      "[(''LIQUID'', [(''Cr'', 0.2), (''Ni'', 0.05)]), (''FCC'', [(''Cr'', 0.1), (''Ni'', 0.25)])]"
      "[(''LIQUID'', [(''Cr'', 5), (''Ni'', 5)]), (''FCC'', [(''Cr'', -2), (''Ni'', 4)])]"
      "''FCC''"
      "\<lambda>e. 5" "\<lambda>e. if e = ''Cr'' then -2 else 4"
      "\<lambda>e. if e = ''Cr'' then 0.2 else 0.05" "\<lambda>e. if e = ''Cr'' then 0.1 else 0.25"
      "0.02" "0.1"]
  by (simp add: read_elem_def getitem_def power2_eq_square)


subsection \<open>Step 9: the Schaeffler estimate\<close>

text \<open>
  Claim C8. For the base \<open>Fe\<close> the estimate is
  \<open>bcc_wt = 10 * dist (100 Cr_eq) (100 Ni_eq) / dist 21 12\<close> with
  \<open>dist x y = (14 + (10/7) (x - 19) - y) * 7 / sqrt (7\<^sup>2 + 10\<^sup>2)\<close>, and every liquid
  composition with \<open>Cr_eq = 0.21\<close> and \<open>Ni_eq = 0.12\<close> gives \<open>bcc_wt = 10\<close>.
\<close>

theorem schaeffler_calibration:
  "schaeffler ''Fe'' liquid =
     Some (Ni_eq liquid, Cr_eq liquid,
           10 * bcc_dist (100 * Cr_eq liquid) (100 * Ni_eq liquid) / bcc_dist 21 12)
   \<and> bcc_dist x y = (14 + (10 / 7) * (x - 19) - y) * 7 / sqrt (7\<^sup>2 + 10\<^sup>2)
   \<and> (Cr_eq liquid = 0.21 \<and> Ni_eq liquid = 0.12
        \<longrightarrow> schaeffler ''Fe'' liquid = Some (0.12, 0.21, 10))"
proof (intro conjI impI)
  show "schaeffler ''Fe'' liquid =
     Some (Ni_eq liquid, Cr_eq liquid,
           10 * bcc_dist (100 * Cr_eq liquid) (100 * Ni_eq liquid) / bcc_dist 21 12)"
    by (simp add: schaeffler_def ten_pct_dist_def mult.commute)
next
  show "bcc_dist x y = (14 + (10 / 7) * (x - 19) - y) * 7 / sqrt (7\<^sup>2 + 10\<^sup>2)"
    by (simp add: bcc_dist_def)
next
  assume a: "Cr_eq liquid = 0.21 \<and> Ni_eq liquid = 0.12"
  then have c: "Cr_eq liquid * 100 = 21" and n: "Ni_eq liquid * 100 = 12"
    by simp_all
  have "10 / ten_pct_dist * bcc_dist 21 12 = 10"
    using ten_pct_dist_nonzero by (simp add: ten_pct_dist_def)
  then show "schaeffler ''Fe'' liquid = Some (0.12, 0.21, 10)"
    unfolding schaeffler_def c n using a by simp
qed

theorem schaeffler_calibration_witness:
  "Cr_eq [(''Cr'', 0.18), (''Mo'', 0.02), (''Ni'', 0.10), (''Mn'', 0.04)] = 0.21
   \<and> Ni_eq [(''Cr'', 0.18), (''Mo'', 0.02), (''Ni'', 0.10), (''Mn'', 0.04)] = 0.12
   \<and> schaeffler ''Fe'' [(''Cr'', 0.18), (''Mo'', 0.02), (''Ni'', 0.10), (''Mn'', 0.04)]
       = Some (0.12, 0.21, 10)"
proof -
  have c: "Cr_eq [(''Cr'', 0.18), (''Mo'', 0.02), (''Ni'', 0.10), (''Mn'', 0.04)] = 0.21"
    by (simp add: Cr_eq_def Ni_coeffs_def Cr_coeffs_def)
  have n: "Ni_eq [(''Cr'', 0.18), (''Mo'', 0.02), (''Ni'', 0.10), (''Mn'', 0.04)] = 0.12"
    by (simp add: Ni_eq_def Ni_coeffs_def Cr_coeffs_def)
  show ?thesis
    using c n schaeffler_calibration
      [of "[(''Cr'', 0.18), (''Mo'', 0.02), (''Ni'', 0.10), (''Mn'', 0.04)]" 0 0]
    by blast
qed

end
